theory Spec2Isabelle
  imports Complex_Main "HOL-Library.Char_ord" "HOL-Library.List_Lexorder" "HOL-Library.Multiset"
begin

section \<open>JavaScript numbers\<close>

text \<open>
  The simulator computes with JavaScript numbers. The model keeps the values that exact
  arithmetic can reach: the reals, the two infinities and NaN. Rounding, overflow of
  finite values and the sign of zero are outside the model. Inputs (populations, edge
  weights, parameters, generator outputs) are finite and so have type \<open>real\<close>; computed
  values have type \<open>num\<close>, because a division by zero or \<open>Math.pow\<close> outside its domain
  produces an infinity or NaN that the code then carries along without raising.
\<close>

datatype num = Fin real | PosInf | NegInf | NaN

text \<open>Sign of a real, used for products and quotients with an infinity.\<close>

definition signed_inf :: "real \<Rightarrow> num" where
  "signed_inf s = (if s > 0 then PosInf else if s < 0 then NegInf else NaN)"

instantiation num :: "{plus, uminus, minus, times, inverse, ord}"
begin

fun plus_num :: "num \<Rightarrow> num \<Rightarrow> num" where
  "plus_num (Fin a) (Fin b) = Fin (a + b)"
| "plus_num NaN _ = NaN"
| "plus_num _ NaN = NaN"
| "plus_num PosInf NegInf = NaN"
| "plus_num NegInf PosInf = NaN"
| "plus_num PosInf _ = PosInf"
| "plus_num _ PosInf = PosInf"
| "plus_num NegInf _ = NegInf"
| "plus_num _ NegInf = NegInf"

fun uminus_num :: "num \<Rightarrow> num" where
  "uminus_num (Fin a) = Fin (- a)"
| "uminus_num PosInf = NegInf"
| "uminus_num NegInf = PosInf"
| "uminus_num NaN = NaN"

definition minus_num :: "num \<Rightarrow> num \<Rightarrow> num" where
  "minus_num x y = x + (- y)"

fun times_num :: "num \<Rightarrow> num \<Rightarrow> num" where
  "times_num (Fin a) (Fin b) = Fin (a * b)"
| "times_num NaN _ = NaN"
| "times_num _ NaN = NaN"
| "times_num PosInf (Fin b) = signed_inf b"
| "times_num (Fin a) PosInf = signed_inf a"
| "times_num NegInf (Fin b) = signed_inf (- b)"
| "times_num (Fin a) NegInf = signed_inf (- a)"
| "times_num PosInf PosInf = PosInf"
| "times_num NegInf NegInf = PosInf"
| "times_num PosInf NegInf = NegInf"
| "times_num NegInf PosInf = NegInf"

fun divide_num :: "num \<Rightarrow> num \<Rightarrow> num" where
  "divide_num (Fin a) (Fin b) = (if b = 0 then signed_inf a else Fin (a / b))"
| "divide_num NaN _ = NaN"
| "divide_num _ NaN = NaN"
| "divide_num (Fin a) PosInf = Fin 0"
| "divide_num (Fin a) NegInf = Fin 0"
| "divide_num PosInf (Fin b) = (if b \<ge> 0 then PosInf else NegInf)"
| "divide_num NegInf (Fin b) = (if b \<ge> 0 then NegInf else PosInf)"
| "divide_num _ _ = NaN"

definition inverse_num :: "num \<Rightarrow> num" where
  "inverse_num x = divide (Fin 1) x"

text \<open>Every comparison with NaN is false.\<close>

fun less_eq_num :: "num \<Rightarrow> num \<Rightarrow> bool" where
  "less_eq_num (Fin a) (Fin b) = (a \<le> b)"
| "less_eq_num NaN _ = False"
| "less_eq_num _ NaN = False"
| "less_eq_num NegInf _ = True"
| "less_eq_num _ PosInf = True"
| "less_eq_num _ _ = False"

fun less_num :: "num \<Rightarrow> num \<Rightarrow> bool" where
  "less_num (Fin a) (Fin b) = (a < b)"
| "less_num NaN _ = False"
| "less_num _ NaN = False"
| "less_num PosInf _ = False"
| "less_num _ NegInf = False"
| "less_num _ _ = True"

instance ..

end

text \<open>\<open>Math.min\<close>, \<open>Math.max\<close>: NaN if either argument is NaN.\<close>

fun mathMin :: "num \<Rightarrow> num \<Rightarrow> num" where
  "mathMin NaN _ = NaN"
| "mathMin _ NaN = NaN"
| "mathMin x y = (if x \<le> y then x else y)"

fun mathMax :: "num \<Rightarrow> num \<Rightarrow> num" where
  "mathMax NaN _ = NaN"
| "mathMax _ NaN = NaN"
| "mathMax x y = (if x \<le> y then y else x)"

fun mathFloor :: "num \<Rightarrow> num" where
  "mathFloor (Fin a) = Fin (of_int \<lfloor>a\<rfloor>)"
| "mathFloor x = x"

text \<open>
  \<open>Math.pow\<close> on finite arguments: 1 for exponent 0; the real power for a positive base;
  for base 0 the value 0 or +Infinity; for a negative base the signed integer power, and
  NaN when the exponent is not an integer.
\<close>

definition mathPow :: "real \<Rightarrow> real \<Rightarrow> num" where
  "mathPow x y =
     (if y = 0 then Fin 1
      else if x > 0 then Fin (x powr y)
      else if x = 0 then (if y > 0 then Fin 0 else PosInf)
      else if y = of_int \<lfloor>y\<rfloor> then
        (if even \<lfloor>y\<rfloor> then Fin ((- x) powr y) else Fin (- ((- x) powr y)))
      else NaN)"

text \<open>Truthiness of a number: 0 and NaN are falsy. \<open>x || d\<close> yields \<open>d\<close> for a falsy \<open>x\<close>.\<close>

fun truthy :: "num \<Rightarrow> bool" where
  "truthy (Fin a) = (a \<noteq> 0)"
| "truthy NaN = False"
| "truthy _ = True"

definition orElse :: "num \<Rightarrow> num \<Rightarrow> num" where
  "orElse x d = (if truthy x then x else d)"

text \<open>A property read from an object is \<open>undefined\<close> when absent, which is falsy.\<close>

definition orElseU :: "num option \<Rightarrow> num \<Rightarrow> num" where
  "orElseU x d = (case x of None \<Rightarrow> d | Some v \<Rightarrow> orElse v d)"

text \<open>The same on finite inputs.\<close>

definition orReal :: "real \<Rightarrow> real \<Rightarrow> real" where
  "orReal x d = (if x \<noteq> 0 then x else d)"

definition orRealU :: "real option \<Rightarrow> real \<Rightarrow> real" where
  "orRealU x d = (case x of None \<Rightarrow> d | Some v \<Rightarrow> orReal v d)"

text \<open>\<open>undefined\<close> in an arithmetic position converts to NaN.\<close>

definition toNumber :: "num option \<Rightarrow> num" where
  "toNumber x = (case x of None \<Rightarrow> NaN | Some v \<Rightarrow> v)"

text \<open>A destructuring default applies when the property is \<open>undefined\<close>.\<close>

definition withDefault :: "'a option \<Rightarrow> 'a \<Rightarrow> 'a" where
  "withDefault x d = (case x of None \<Rightarrow> d | Some v \<Rightarrow> v)"

definition clamp01 :: "num \<Rightarrow> num" where
  "clamp01 x = mathMax (Fin 0) (mathMin (Fin 1) x)"


section \<open>Data model of the cascade simulation\<close>

text \<open>
  Objects used as dictionaries (\<open>popByRegion\<close>, the state \<open>A\<close> and \<open>F\<close>, the weight
  tables) are maps on their own keys; members inherited from \<open>Object.prototype\<close> are
  outside the model. Region identifiers are strings of ASCII characters.
\<close>

record edge =
  to :: string
  weight :: real

text \<open>\<open>mobilityGraph\<close>: source region, then its outgoing edges, in enumeration order.\<close>

type_synonym mobilityGraph = "(string \<times> edge list) list"

record densityProvider =
  getDensity :: "string \<Rightarrow> real \<Rightarrow> real"
  listRegions :: "string list"

text \<open>
  \<open>spatialFocus\<close>: every field may be absent. The type parameter is the representation
  of the \<open>centerIds\<close> array: the list itself where the array is only read, an address
  into a store of arrays where it is sorted in place.
\<close>

record 'c spatialFocus =
  type :: "string option"
  centerIds :: "'c option"
  weights :: "(string \<times> real) list option"

record 'c gridPoint =
  seedFraction :: real
  signalStrength :: real
  spatialFocus :: "'c spatialFocus option"

record 'c thetaBase = "'c gridPoint" +
  timeHorizon :: real
  dt :: real

record 'c theta = "'c thetaBase" +
  randomSeed :: "real option"

record fearParams =
  kExposure :: "real option"
  kGrowth :: "real option"
  kHarm :: "real option"
  decay :: "real option"
  nonLinearSpike :: "bool option"
  spikeThreshold :: "real option"
  spikeGain :: "real option"
  criticalFear :: "real option"
  materialAdoption :: "real option"
  criticalPopShare :: "real option"

record adoptionParams =
  localWeight :: "real option"
  importedWeight :: "real option"
  baseContact :: "real option"
  densityExponent :: "real option"
  exposureScale :: "real option"
  fearSensitivity :: "real option"
  maxRate :: "real option"

record harmWeights =
  adoption :: "real option"
  fear :: "real option"
  exposure :: "real option"

text \<open>
  A random-number generator is the stream of the numbers its successive calls return;
  \<open>rngFactory\<close> maps a seed to such a stream. The factory and the density provider are
  functions of their arguments alone.
\<close>

type_synonym rng = "nat \<Rightarrow> real"

record simConfig =
  fearParams :: "fearParams option"
  adoptionParams :: "adoptionParams option"
  popByRegion :: "string \<rightharpoonup> real"
  initialFearByRegion :: "(string \<rightharpoonup> real) option"
  rngFactory :: "(real \<Rightarrow> rng) option"
  harmWeights :: "harmWeights option"

text \<open>Reading a parameter from an options object that may itself be absent.\<close>

definition param :: "'p option \<Rightarrow> ('p \<Rightarrow> 'a option) \<Rightarrow> 'a \<Rightarrow> 'a" where
  "param ps field d = (case ps of None \<Rightarrow> d | Some p \<Rightarrow> withDefault (field p) d)"

type_synonym state = "string \<rightharpoonup> num"

record snapshot =
  t :: real
  "values" :: state

record history =
  A :: "snapshot list"
  F :: "snapshot list"

record regionPeaks =
  peakAdoption :: num
  peakFear :: num
  peakAdoptionTime :: "real option"
  peakFearTime :: "real option"

record metrics =
  globalPeakAdoption :: num
  globalPeakFear :: num
  peakAdoptionTime :: "real option"
  peakFearTime :: "real option"
  perRegion :: "string \<rightharpoonup> regionPeaks"
  harmfulCascadeOccurred :: bool

record simResult =
  history :: history
  metrics :: metrics


section \<open>Initialisation\<close>

text \<open>\<open>regions.reduce((sum, r) => sum + (popByRegion[r] || 0), 0)\<close>\<close>

definition sumPop :: "string list \<Rightarrow> (string \<rightharpoonup> real) \<Rightarrow> real" where
  "sumPop regions pop = foldl (\<lambda>sum r. sum + orRealU (pop r) 0) 0 regions"

definition uniformWeights :: "string list \<Rightarrow> state" where
  "uniformWeights regions =
     (let n = length regions
      in fold (\<lambda>r w. w(r \<mapsto> Fin 1 / Fin (real n))) regions Map.empty)"

definition explicitWeights :: "string list \<Rightarrow> (string \<times> real) list \<Rightarrow> state" where
  "explicitWeights regions raw =
     (let sum = orReal (foldl (\<lambda>s v. s + v) 0 (map snd raw)) 1
      in fold (\<lambda>r w. w(r \<mapsto> Fin (orRealU (map_of raw r) 0) / Fin sum)) regions Map.empty)"

definition kernelWeights :: "string list \<Rightarrow> string list \<Rightarrow> (string \<rightharpoonup> real) \<Rightarrow> state" where
  "kernelWeights regions ids pop =
     (let centers = set ids;
          centerPop = foldl (\<lambda>c r. if r \<in> centers then c + orRealU (pop r) 0 else c) 0 regions;
          totalPop = orReal (sumPop regions pop) 1
      in fold (\<lambda>r w.
           if r \<in> centers
           then w(r \<mapsto> orElse (Fin (orRealU (pop r) 0) / Fin centerPop) (Fin 0))
           else w(r \<mapsto> Fin 0.001 * (Fin (orRealU (pop r) 0) / Fin totalPop)))
         regions Map.empty)"

definition computeSpatialFocusWeights ::
  "string list \<Rightarrow> string list spatialFocus option \<Rightarrow> (string \<rightharpoonup> real) \<Rightarrow> state" where
  "computeSpatialFocusWeights regions sf pop =
     (case sf of
        None \<Rightarrow> uniformWeights regions
      | Some f \<Rightarrow>
          if type f = Some ''uniform'' then uniformWeights regions
          else if type f = Some ''explicit'' \<and> weights f \<noteq> None
            then explicitWeights regions (the (weights f))
          else if type f = Some ''kernel'' \<and> centerIds f \<noteq> None \<and> centerIds f \<noteq> Some []
            then kernelWeights regions (the (centerIds f)) pop
          else uniformWeights regions)"

text \<open>The value \<open>initializeAdoption\<close> stores for one region, given the generator's output.\<close>

definition seedAdoption :: "state \<Rightarrow> (string \<rightharpoonup> real) \<Rightarrow> real \<Rightarrow> string \<Rightarrow> real \<Rightarrow> num" where
  "seedAdoption ws pop targetSeedPop r u =
     (let w = orElseU (ws r) (Fin 0);
          regionPop = orRealU (pop r) 0;
          expectedSeeds = (w * Fin targetSeedPop) / Fin (if regionPop > 0 then regionPop else 1);
          frac = mathMin (Fin 1) (expectedSeeds / Fin (orReal regionPop 1));
          jitter = (u - 0.5) * 0.1
      in clamp01 (frac + Fin jitter))"

text \<open>The seeding loop; \<open>k\<close> counts the calls made to the generator so far.\<close>

fun seedLoop :: "state \<Rightarrow> (string \<rightharpoonup> real) \<Rightarrow> real \<Rightarrow> rng \<Rightarrow> nat \<Rightarrow> state \<Rightarrow> string list \<Rightarrow> state" where
  "seedLoop ws pop targetSeedPop rng k stateA [] = stateA"
| "seedLoop ws pop targetSeedPop rng k stateA (r # rs) =
     seedLoop ws pop targetSeedPop rng (Suc k)
       (stateA(r \<mapsto> seedAdoption ws pop targetSeedPop r (rng k))) rs"

definition initializeAdoption ::
  "state \<Rightarrow> string list \<Rightarrow> real \<Rightarrow> string list spatialFocus option \<Rightarrow> (string \<rightharpoonup> real) \<Rightarrow> rng \<Rightarrow> state" where
  "initializeAdoption stateA regions seedFrac sf pop rng =
     (let totalPop = sumPop regions pop;
          targetSeedPop = totalPop * seedFrac;
          ws = computeSpatialFocusWeights regions sf pop
      in seedLoop ws pop targetSeedPop rng 0 stateA regions)"

definition initializeFear :: "state \<Rightarrow> string list \<Rightarrow> (string \<rightharpoonup> real) \<Rightarrow> state" where
  "initializeFear stateF regions initialFear =
     fold (\<lambda>r f. f(r \<mapsto> Fin (orRealU (initialFear r) 0))) regions stateF"

section \<open>Dynamics\<close>

definition localContactFunction :: "real \<Rightarrow> adoptionParams option \<Rightarrow> num" where
  "localContactFunction density ap =
     Fin (param ap baseContact 0.01) * mathPow (density + 1) (param ap densityExponent 0.5)"

text \<open>Incoming edges of a region: source and weight, in scan order of the graph.\<close>

definition reverseEdgesForRegion :: "string \<Rightarrow> mobilityGraph \<Rightarrow> (string \<times> real) list" where
  "reverseEdgesForRegion target g =
     concat (map (\<lambda>(from, es). map (\<lambda>e. (from, weight e)) (filter (\<lambda>e. to e = target) es)) g)"

definition importedExposure :: "state \<Rightarrow> (string \<times> real) list \<Rightarrow> num" where
  "importedExposure stateA incoming =
     foldl (\<lambda>acc (from, w). acc + Fin w * orElseU (stateA from) (Fin 0)) (Fin 0) incoming"

definition exposureAt ::
  "state \<Rightarrow> densityProvider \<Rightarrow> mobilityGraph \<Rightarrow> real \<Rightarrow> adoptionParams option \<Rightarrow> string \<Rightarrow> num" where
  "exposureAt stateA dp g signal ap i =
     (let localDensity = getDensity dp i 0;
          localContactRate = localContactFunction localDensity ap;
          localExposure = Fin (param ap localWeight 1.0) * localContactRate * orElseU (stateA i) (Fin 0);
          imported = importedExposure stateA (reverseEdgesForRegion i g)
      in Fin signal * (localExposure + Fin (param ap importedWeight 1.0) * imported))"

definition computeExposure ::
  "string list \<Rightarrow> state \<Rightarrow> densityProvider \<Rightarrow> mobilityGraph \<Rightarrow> real \<Rightarrow> adoptionParams option \<Rightarrow> state" where
  "computeExposure regions stateA dp g signal ap =
     fold (\<lambda>i ex. ex(i \<mapsto> exposureAt stateA dp g signal ap i)) regions Map.empty"

definition adoptionIncrement :: "num \<Rightarrow> num \<Rightarrow> num \<Rightarrow> adoptionParams option \<Rightarrow> num" where
  "adoptionIncrement a f e ap =
     (let effectiveExposure = e * Fin (param ap exposureScale 1.0);
          fearFactor = Fin 1 / (Fin 1 + Fin (param ap fearSensitivity 1.0) * f);
          rawGrowth = effectiveExposure * fearFactor * (Fin 1 - a)
      in mathMin (Fin (param ap maxRate 0.2)) rawGrowth)"

text \<open>\<open>harmWeights.x || 0.0\<close>, with \<open>harmWeights\<close> defaulting to the empty object.\<close>

definition harmWeight :: "harmWeights option \<Rightarrow> (harmWeights \<Rightarrow> real option) \<Rightarrow> real" where
  "harmWeight hw field = orRealU (case hw of None \<Rightarrow> None | Some h \<Rightarrow> field h) 0"

definition computeHarmSignal :: "string \<Rightarrow> state \<Rightarrow> state \<Rightarrow> state \<Rightarrow> harmWeights option \<Rightarrow> num" where
  "computeHarmSignal regionId stateA stateF ex hw =
     (let adoptionLevel = orElseU (stateA regionId) (Fin 0);
          fearLevel = orElseU (stateF regionId) (Fin 0);
          exp = orElseU (ex regionId) (Fin 0)
      in Fin (harmWeight hw adoption) * adoptionLevel
         + Fin (harmWeight hw fear) * fearLevel
         + Fin (harmWeight hw exposure) * exp)"

definition fearIncrement :: "num \<Rightarrow> num \<Rightarrow> num \<Rightarrow> num \<Rightarrow> fearParams option \<Rightarrow> num" where
  "fearIncrement f e dA harmSignal fp =
     (let driver = Fin (param fp kExposure 0.1) * e
                   + Fin (param fp kGrowth 0.5) * mathMax (Fin 0) dA
                   + Fin (param fp kHarm 1.0) * harmSignal;
          driver' = (if param fp nonLinearSpike True \<and> driver > Fin (param fp spikeThreshold 0.2)
                     then driver * Fin (param fp spikeGain 2.0) else driver)
      in driver' - Fin (param fp decay 0.05) * f)"


section \<open>The simulation loop\<close>

text \<open>One pass of the update loop body for region \<open>r\<close>: the new adoption and fear values.\<close>

definition updateRegion ::
  "state \<Rightarrow> state \<Rightarrow> state \<Rightarrow> simConfig \<Rightarrow> string \<Rightarrow> num \<times> num" where
  "updateRegion stateA stateF ex cfg r =
     (let a = toNumber (stateA r);
          f = toNumber (stateF r);
          e = orElseU (ex r) (Fin 0);
          dA = adoptionIncrement a f e (adoptionParams cfg);
          harmSignal = computeHarmSignal r stateA stateF ex (harmWeights cfg);
          dF = fearIncrement f e dA harmSignal (fearParams cfg)
      in (clamp01 (a + dA), mathMax (Fin 0) (f + dF)))"

text \<open>
  The body of the simulation loop after the snapshot: exposure from the old state, the new
  values into fresh buffers, then the commit for every region.
\<close>

definition updateState ::
  "string list \<Rightarrow> densityProvider \<Rightarrow> mobilityGraph \<Rightarrow> real \<Rightarrow> simConfig
     \<Rightarrow> state \<times> state \<Rightarrow> state \<times> state" where
  "updateState regions dp g signal cfg st =
     (let stateA = fst st; stateF = snd st;
          ex = computeExposure regions stateA dp g signal (adoptionParams cfg);
          newA = fold (\<lambda>r m. m(r \<mapsto> fst (updateRegion stateA stateF ex cfg r))) regions Map.empty;
          newF = fold (\<lambda>r m. m(r \<mapsto> snd (updateRegion stateA stateF ex cfg r))) regions Map.empty
      in (fold (\<lambda>r m. m(r := newA r)) regions stateA,
          fold (\<lambda>r m. m(r := newF r)) regions stateF))"

definition pushSnapshot :: "real \<Rightarrow> state \<times> state \<Rightarrow> history \<Rightarrow> history" where
  "pushSnapshot time st h =
     \<lparr>A = A h @ [\<lparr>t = time, values = fst st\<rparr>], F = F h @ [\<lparr>t = time, values = snd st\<rparr>]\<rparr>"

text \<open>\<open>for (let step = 0; step <= T; step++)\<close> with a finite bound \<open>T\<close>.\<close>

function simLoop ::
  "string list \<Rightarrow> densityProvider \<Rightarrow> mobilityGraph \<Rightarrow> real \<Rightarrow> simConfig \<Rightarrow> real
     \<Rightarrow> int \<Rightarrow> int \<Rightarrow> state \<times> state \<Rightarrow> history \<Rightarrow> history" where
  "simLoop regions dp g signal cfg dtv T step st h =
     (if step \<le> T then
        (let h' = pushSnapshot (of_int step * dtv) st h
         in if step = T then h'
            else simLoop regions dp g signal cfg dtv T (step + 1)
                   (updateState regions dp g signal cfg st) h')
      else h)"
  by pat_completeness auto
termination
  by (relation "measure (\<lambda>(regions, dp, g, signal, cfg, dtv, T, step, st, h). nat (T - step))") auto

declare simLoop.simps [simp del]


section \<open>Metrics\<close>

text \<open>
  Reading \<open>x.values\<close> or \<open>x.peakAdoption\<close> from an \<open>undefined\<close> \<open>x\<close> throws a
  \<open>TypeError\<close>. A run whose loop bound is +Infinity never leaves the loop.
\<close>

datatype error = TypeError

datatype 'a outcome = Returns 'a | Throws error | Diverges

text \<open>The two strict comparisons that move a region's peaks.\<close>

definition updateRegionPeaks :: "regionPeaks \<Rightarrow> num \<Rightarrow> num \<Rightarrow> real \<Rightarrow> regionPeaks" where
  "updateRegionPeaks rp a f time =
     (let rp1 = (if a > peakAdoption rp
                 then rp\<lparr>peakAdoption := a, regionPeaks.peakAdoptionTime := Some time\<rparr>
                 else rp)
      in if f > peakFear rp1
         then rp1\<lparr>peakFear := f, regionPeaks.peakFearTime := Some time\<rparr>
         else rp1)"

text \<open>The inner loop of the peak scan, over the regions of one snapshot.\<close>

fun regionPeaksLoop ::
  "state \<Rightarrow> state \<Rightarrow> (string \<rightharpoonup> real) \<Rightarrow> real \<Rightarrow> string list
     \<Rightarrow> num \<times> num \<times> (string \<rightharpoonup> regionPeaks) \<Rightarrow> error + num \<times> num \<times> (string \<rightharpoonup> regionPeaks)" where
  "regionPeaksLoop Avals Fvals pop time [] acc = Inr acc"
| "regionPeaksLoop Avals Fvals pop time (r # rs) (totalAdoptedPop, totalFearWeightedPop, pr) =
     (let a = orElseU (Avals r) (Fin 0);
          f = orElseU (Fvals r) (Fin 0);
          p = orRealU (pop r) 0
      in case pr r of
           None \<Rightarrow> Inl TypeError
         | Some rp \<Rightarrow>
             regionPeaksLoop Avals Fvals pop time rs
               (totalAdoptedPop + a * Fin p, totalFearWeightedPop + f * Fin p,
                pr(r \<mapsto> updateRegionPeaks rp a f time)))"

definition updateGlobalPeaks :: "metrics \<Rightarrow> num \<Rightarrow> num \<Rightarrow> real \<Rightarrow> metrics" where
  "updateGlobalPeaks m avgAdoption avgFear time =
     (let m1 = (if avgAdoption > globalPeakAdoption m
                then m\<lparr>globalPeakAdoption := avgAdoption, metrics.peakAdoptionTime := Some time\<rparr>
                else m)
      in if avgFear > globalPeakFear m1
         then m1\<lparr>globalPeakFear := avgFear, metrics.peakFearTime := Some time\<rparr>
         else m1)"

text \<open>
  The peak scan over the snapshots. The accumulated variables are kept in a \<open>metrics\<close>
  record, whose flag is set by the second scan.
\<close>

function peaksLoop ::
  "history \<Rightarrow> string list \<Rightarrow> (string \<rightharpoonup> real) \<Rightarrow> real \<Rightarrow> nat \<Rightarrow> metrics \<Rightarrow> error + metrics" where
  "peaksLoop h regions pop popTotal i m =
     (if i < length (A h) then
        (if i < length (F h) then
           (let time = t (A h ! i);
                Avals = values (A h ! i);
                Fvals = values (F h ! i)
            in case regionPeaksLoop Avals Fvals pop time regions (Fin 0, Fin 0, perRegion m) of
                 Inl e \<Rightarrow> Inl e
               | Inr (totalAdoptedPop, totalFearWeightedPop, pr) \<Rightarrow>
                   (let avgAdoption = totalAdoptedPop / Fin popTotal;
                        avgFear = totalFearWeightedPop / Fin popTotal
                    in peaksLoop h regions pop popTotal (Suc i)
                         (updateGlobalPeaks (m\<lparr>perRegion := pr\<rparr>) avgAdoption avgFear time)))
         else Inl TypeError)
      else Inr m)"
  by pat_completeness auto
termination
  by (relation "measure (\<lambda>(h, regions, pop, popTotal, i, m). length (A h) - i)") auto

declare peaksLoop.simps [simp del]

text \<open>Population of the regions at or above both thresholds in one snapshot.\<close>

definition popAtRisk ::
  "state \<Rightarrow> state \<Rightarrow> (string \<rightharpoonup> real) \<Rightarrow> real \<Rightarrow> real \<Rightarrow> string list \<Rightarrow> real" where
  "popAtRisk Avals Fvals pop matAdoption critFear regions =
     foldl (\<lambda>acc r.
        if orElseU (Avals r) (Fin 0) \<ge> Fin matAdoption \<and> orElseU (Fvals r) (Fin 0) \<ge> Fin critFear
        then acc + orRealU (pop r) 0 else acc) 0 regions"

definition shareAtRisk ::
  "string list \<Rightarrow> (string \<rightharpoonup> real) \<Rightarrow> real \<Rightarrow> fearParams option \<Rightarrow> state \<Rightarrow> state \<Rightarrow> num" where
  "shareAtRisk regions pop popTotal fp Avals Fvals =
     Fin (popAtRisk Avals Fvals pop (param fp materialAdoption 0.3) (param fp criticalFear 0.7) regions)
       / Fin popTotal"

text \<open>
  The harmful-cascade scan. It returns the loop counter at exit together with the flag:
  the index of the snapshot at which it broke out, or the number of snapshots.
\<close>

function harmfulScan ::
  "history \<Rightarrow> string list \<Rightarrow> (string \<rightharpoonup> real) \<Rightarrow> real \<Rightarrow> fearParams option \<Rightarrow> nat
     \<Rightarrow> error + nat \<times> bool" where
  "harmfulScan h regions pop popTotal fp i =
     (if i < length (A h) then
        (if i < length (F h) then
           (if shareAtRisk regions pop popTotal fp (values (A h ! i)) (values (F h ! i))
                 \<ge> Fin (param fp criticalPopShare 0.1)
            then Inr (i, True)
            else harmfulScan h regions pop popTotal fp (Suc i))
         else Inl TypeError)
      else Inr (i, False))"
  by pat_completeness auto
termination
  by (relation "measure (\<lambda>(h, regions, pop, popTotal, fp, i). length (A h) - i)") auto

declare harmfulScan.simps [simp del]

definition initialPerRegion :: "string list \<Rightarrow> (string \<rightharpoonup> regionPeaks)" where
  "initialPerRegion regions =
     fold (\<lambda>r m. m(r \<mapsto> \<lparr>peakAdoption = Fin 0, peakFear = Fin 0,
                          regionPeaks.peakAdoptionTime = None, regionPeaks.peakFearTime = None\<rparr>))
       regions Map.empty"

definition computeSimulationMetrics ::
  "history \<Rightarrow> string list \<Rightarrow> (string \<rightharpoonup> real) \<Rightarrow> fearParams option \<Rightarrow> error + metrics" where
  "computeSimulationMetrics h regions pop fp =
     (let popTotal = orReal (sumPop regions pop) 1;
          m = \<lparr>globalPeakAdoption = Fin 0, globalPeakFear = Fin 0,
               metrics.peakAdoptionTime = None, metrics.peakFearTime = None,
               perRegion = initialPerRegion regions, harmfulCascadeOccurred = False\<rparr>
      in case peaksLoop h regions pop popTotal 0 m of
           Inl e \<Rightarrow> Inl e
         | Inr m' \<Rightarrow>
             (case harmfulScan h regions pop popTotal fp 0 of
                Inl e \<Rightarrow> Inl e
              | Inr (i, harmful) \<Rightarrow> Inr (m'\<lparr>harmfulCascadeOccurred := harmful\<rparr>)))"

section \<open>\<open>runCascadeSimulation\<close>\<close>

text \<open>
  \<open>mathRandom\<close> is the stream \<open>Math.random\<close> yields during this invocation; it is used
  only when the configuration has no \<open>rngFactory\<close>.
\<close>

definition initialState ::
  "rng \<Rightarrow> string list theta \<Rightarrow> densityProvider \<Rightarrow> simConfig \<Rightarrow> state \<times> state" where
  "initialState mathRandom theta dp cfg =
     (let rng = (case rngFactory cfg of
                   Some factory \<Rightarrow> factory (orRealU (randomSeed theta) 0)
                 | None \<Rightarrow> mathRandom);
          regions = listRegions dp
      in (initializeAdoption Map.empty regions (seedFraction theta) (spatialFocus theta)
            (popByRegion cfg) rng,
          initializeFear Map.empty regions (withDefault (initialFearByRegion cfg) Map.empty)))"

definition finishRun :: "history \<Rightarrow> densityProvider \<Rightarrow> simConfig \<Rightarrow> simResult outcome" where
  "finishRun h dp cfg =
     (case computeSimulationMetrics h (listRegions dp) (popByRegion cfg) (fearParams cfg) of
        Inl e \<Rightarrow> Throws e
      | Inr m \<Rightarrow> Returns \<lparr>history = h, metrics = m\<rparr>)"

definition runCascadeSimulation ::
  "rng \<Rightarrow> string list theta \<Rightarrow> densityProvider \<Rightarrow> mobilityGraph \<Rightarrow> simConfig \<Rightarrow> simResult outcome" where
  "runCascadeSimulation mathRandom theta dp g cfg =
     (let T = mathFloor (Fin (timeHorizon theta) / Fin (dt theta));
          st = initialState mathRandom theta dp cfg;
          h0 = \<lparr>A = [], F = []\<rparr>
      in case T of
           PosInf \<Rightarrow> Diverges
         | Fin b \<Rightarrow>
             finishRun (simLoop (listRegions dp) dp g (signalStrength theta) cfg (dt theta)
                          \<lfloor>b\<rfloor> 0 st h0) dp cfg
         | _ \<Rightarrow> finishRun h0 dp cfg)"


section \<open>\<open>buildResponseSurface\<close>\<close>

record stats =
  meanGlobalPeakAdoption :: num
  meanGlobalPeakFear :: num
  probabilityHarmful :: num
  raw :: "metrics list"

record 'c cell = "'c gridPoint" +
  stats :: stats

record paramGrid =
  seedFractions :: "real list"
  signalStrengths :: "real list"
  spatialFocusOptions :: "string list spatialFocus option list"

text \<open>\<open>baseSimConfig\<close> is passed on as the \<open>simConfig\<close> of every run and also carries the time grid.\<close>

record baseSimConfig = simConfig +
  timeHorizon :: real
  dt :: real

text \<open>\<open>runsPerPoint\<close> is a count.\<close>

record surfaceConfig =
  densityProvider :: densityProvider
  mobilityGraph :: mobilityGraph
  baseSimConfig :: baseSimConfig
  runsPerPoint :: nat

text \<open>\<open>arr.reduce((s, m) => s + (m[key] || 0), 0) / n\<close>\<close>

definition mean :: "metrics list \<Rightarrow> (metrics \<Rightarrow> num) \<Rightarrow> real \<Rightarrow> num" where
  "mean arr key n = foldl (\<lambda>s m. s + orElse (key m) (Fin 0)) (Fin 0) arr / Fin n"

definition aggregateMetrics :: "metrics list \<Rightarrow> stats" where
  "aggregateMetrics metricsArray =
     (let n = orReal (real (length metricsArray)) 1
      in \<lparr>meanGlobalPeakAdoption = mean metricsArray globalPeakAdoption n,
          meanGlobalPeakFear = mean metricsArray globalPeakFear n,
          probabilityHarmful = Fin (real (length (filter harmfulCascadeOccurred metricsArray))) / Fin n,
          raw = metricsArray\<rparr>)"

text \<open>
  A loop whose body may throw or diverge, over a list, threading the loop state.
\<close>

fun forEach :: "'x list \<Rightarrow> ('x \<Rightarrow> 's \<Rightarrow> 's outcome) \<Rightarrow> 's \<Rightarrow> 's outcome" where
  "forEach [] body s = Returns s"
| "forEach (x # xs) body s =
     (case body x s of
        Returns s' \<Rightarrow> forEach xs body s'
      | Throws e \<Rightarrow> Throws e
      | Diverges \<Rightarrow> Diverges)"

text \<open>
  Every run draws one number per region from its generator, so successive runs that fall
  back on \<open>Math.random\<close> read successive stretches of its stream; runs with a generator
  of their own leave it untouched.
\<close>

definition dropStream :: "nat \<Rightarrow> rng \<Rightarrow> rng" where
  "dropStream n s = (\<lambda>i. s (n + i))"

definition mathRandomAfterRun :: "surfaceConfig \<Rightarrow> rng \<Rightarrow> rng" where
  "mathRandomAfterRun sc mathRandom =
     (case rngFactory (baseSimConfig sc) of
        None \<Rightarrow> dropStream (length (listRegions (densityProvider sc))) mathRandom
      | Some factory \<Rightarrow> mathRandom)"

text \<open>The body of the loop over \<open>k\<close>: one run with \<open>randomSeed = k\<close>, its metrics appended.\<close>

definition runOnce ::
  "surfaceConfig \<Rightarrow> string list thetaBase \<Rightarrow> nat \<Rightarrow> metrics list \<times> rng \<Rightarrow> (metrics list \<times> rng) outcome" where
  "runOnce sc thetaBase k s =
     (let results = fst s; mathRandom = snd s;
          theta = \<lparr>seedFraction = seedFraction thetaBase,
                   signalStrength = signalStrength thetaBase,
                   spatialFocus = spatialFocus thetaBase,
                   thetaBase.timeHorizon = thetaBase.timeHorizon thetaBase,
                   thetaBase.dt = thetaBase.dt thetaBase,
                   randomSeed = Some (real k)\<rparr>
      in case runCascadeSimulation mathRandom theta (densityProvider sc) (mobilityGraph sc)
                (simConfig.truncate (baseSimConfig sc)) of
           Returns simResult \<Rightarrow>
             Returns (results @ [metrics simResult],
                      mathRandomAfterRun sc mathRandom)
         | Throws e \<Rightarrow> Throws e
         | Diverges \<Rightarrow> Diverges)"

text \<open>The body of the innermost grid loop: all runs of one grid point, then its cell.\<close>

definition gridPointBody ::
  "surfaceConfig \<Rightarrow> real \<Rightarrow> real \<Rightarrow> string list spatialFocus option
     \<Rightarrow> string list cell list \<times> rng \<Rightarrow> (string list cell list \<times> rng) outcome" where
  "gridPointBody sc seedFrac signal focus s =
     (let surface = fst s; mathRandom = snd s;
          thetaBase = \<lparr>seedFraction = seedFrac, signalStrength = signal, spatialFocus = focus,
                       thetaBase.timeHorizon = baseSimConfig.timeHorizon (baseSimConfig sc),
                       thetaBase.dt = baseSimConfig.dt (baseSimConfig sc)\<rparr>
      in case forEach [0..<runsPerPoint sc] (runOnce sc thetaBase) ([], mathRandom) of
           Returns (results, mathRandom') \<Rightarrow>
             Returns (surface @ [\<lparr>seedFraction = seedFrac, signalStrength = signal,
                                   spatialFocus = focus, stats = aggregateMetrics results\<rparr>],
                      mathRandom')
         | Throws e \<Rightarrow> Throws e
         | Diverges \<Rightarrow> Diverges)"

definition buildResponseSurface ::
  "rng \<Rightarrow> paramGrid \<Rightarrow> surfaceConfig \<Rightarrow> string list cell list outcome" where
  "buildResponseSurface mathRandom paramGrid sc =
     (case forEach (seedFractions paramGrid) (\<lambda>seedFrac.
             forEach (signalStrengths paramGrid) (\<lambda>signal.
               forEach (spatialFocusOptions paramGrid) (\<lambda>focus.
                 gridPointBody sc seedFrac signal focus)))
           ([], mathRandom) of
        Returns (surface, mathRandom') \<Rightarrow> Returns surface
      | Throws e \<Rightarrow> Throws e
      | Diverges \<Rightarrow> Diverges)"


section \<open>\<open>deriveRegulatoryThresholds\<close>\<close>



















section \<open>Notions used to state the properties\<close>

subsection \<open>Runs and their histories\<close>

text \<open>
  \<open>snapshotsFrom sel upd dtv step st n\<close>: the \<open>n\<close> snapshots that start at step \<open>step\<close> in
  state \<open>st\<close>, the one at offset \<open>j\<close> taken at time \<open>(step + j) * dt\<close> from the state
  after \<open>j\<close> updates.
\<close>

definition snapshotsFrom ::
  "(state \<times> state \<Rightarrow> state) \<Rightarrow> (state \<times> state \<Rightarrow> state \<times> state) \<Rightarrow> real \<Rightarrow> int
     \<Rightarrow> state \<times> state \<Rightarrow> nat \<Rightarrow> snapshot list" where
  "snapshotsFrom sel upd dtv step st n =
     map (\<lambda>j. \<lparr>t = of_int (step + int j) * dtv, values = sel ((upd ^^ j) st)\<rparr>) [0..<n]"

text \<open>The state of a run after \<open>k\<close> committed updates.\<close>

definition stateAfter ::
  "rng \<Rightarrow> string list theta \<Rightarrow> densityProvider \<Rightarrow> mobilityGraph \<Rightarrow> simConfig \<Rightarrow> nat
     \<Rightarrow> state \<times> state" where
  "stateAfter mathRandom theta dp g cfg k =
     (updateState (listRegions dp) dp g (signalStrength theta) cfg ^^ k)
       (initialState mathRandom theta dp cfg)"

text \<open>The history with \<open>n\<close> snapshots of a run.\<close>

definition historyOfLength ::
  "rng \<Rightarrow> string list theta \<Rightarrow> densityProvider \<Rightarrow> mobilityGraph \<Rightarrow> simConfig \<Rightarrow> nat \<Rightarrow> history" where
  "historyOfLength mathRandom theta dp g cfg n =
     \<lparr>A = map (\<lambda>k. \<lparr>t = real k * thetaBase.dt theta,
                     values = fst (stateAfter mathRandom theta dp g cfg k)\<rparr>) [0..<n],
      F = map (\<lambda>k. \<lparr>t = real k * thetaBase.dt theta,
                     values = snd (stateAfter mathRandom theta dp g cfg k)\<rparr>) [0..<n]\<rparr>"

text \<open>
  The number of snapshots a run takes: none when the loop bound is NaN, -Infinity or
  negative. The bound +Infinity is excluded where this is used.
\<close>

definition snapshotCount :: "string list theta \<Rightarrow> nat" where
  "snapshotCount theta =
     (if thetaBase.dt theta = 0 \<or> thetaBase.timeHorizon theta / thetaBase.dt theta < 0 then 0
      else nat \<lfloor>thetaBase.timeHorizon theta / thetaBase.dt theta\<rfloor> + 1)"



subsection \<open>Ranges\<close>





subsection \<open>The share at risk\<close>





subsection \<open>Grid points and their runs\<close>

text \<open>
  The grid point of a cell; the grid points of a parameter grid in nested iteration order,
  \<open>seedFraction\<close> outermost, then \<open>signalStrength\<close>, then \<open>spatialFocus\<close>; and the \<open>theta\<close> of
  run \<open>k\<close> of a cell.
\<close>

definition gridPointOf :: "'c cell \<Rightarrow> real \<times> real \<times> 'c spatialFocus option" where
  "gridPointOf c = (seedFraction c, signalStrength c, spatialFocus c)"

definition gridPoints :: "paramGrid \<Rightarrow> (real \<times> real \<times> string list spatialFocus option) list" where
  "gridPoints paramGrid =
     concat (map (\<lambda>seedFrac.
       concat (map (\<lambda>signal.
         map (\<lambda>focus. (seedFrac, signal, focus)) (spatialFocusOptions paramGrid))
       (signalStrengths paramGrid)))
     (seedFractions paramGrid))"

definition thetaOfRun ::
  "surfaceConfig \<Rightarrow> real \<times> real \<times> string list spatialFocus option \<Rightarrow> nat \<Rightarrow> string list theta" where
  "thetaOfRun sc point k =
     \<lparr>seedFraction = fst point, signalStrength = fst (snd point), spatialFocus = snd (snd point),
      thetaBase.timeHorizon = baseSimConfig.timeHorizon (baseSimConfig sc),
      thetaBase.dt = baseSimConfig.dt (baseSimConfig sc),
      randomSeed = Some (real k)\<rparr>"

text \<open>
  The statistics of a cell are those of exactly \<open>runsPerPoint\<close> runs, run \<open>k\<close> made with
  \<open>randomSeed = k\<close>, and the probability is the share of harmful runs among them.
\<close>

definition cellAggregatesRuns :: "surfaceConfig \<Rightarrow> string list cell \<Rightarrow> bool" where
  "cellAggregatesRuns sc c =
     (length (raw (stats c)) = runsPerPoint sc
      \<and> (\<forall>k < runsPerPoint sc. \<exists>mathRandom res.
            runCascadeSimulation mathRandom (thetaOfRun sc (gridPointOf c) k)
              (densityProvider sc) (mobilityGraph sc) (simConfig.truncate (baseSimConfig sc))
              = Returns res
            \<and> raw (stats c) ! k = metrics res)
      \<and> (0 < runsPerPoint sc \<longrightarrow>
            probabilityHarmful (stats c)
            = Fin (real (length (filter harmfulCascadeOccurred (raw (stats c))))
                   / real (runsPerPoint sc)))
      \<and> (runsPerPoint sc = 0 \<longrightarrow> probabilityHarmful (stats c) = Fin 0))"

subsection \<open>Keys, groups and sorted arrays\<close>





section \<open>Small scenarios\<close>

text \<open>One region of population 100, density 0, default parameters, a constant generator.\<close>

definition exampleProvider :: densityProvider where
  "exampleProvider = \<lparr>getDensity = (\<lambda>r time. 0), listRegions = [''a'']\<rparr>"

definition constantStream :: "real \<Rightarrow> rng" where
  "constantStream u = (\<lambda>k. u)"

definition exampleConfig :: simConfig where
  "exampleConfig =
     \<lparr>fearParams = None, adoptionParams = None, popByRegion = [''a'' \<mapsto> 100],
      initialFearByRegion = None, rngFactory = Some (\<lambda>seed. constantStream (1 / 2)),
      harmWeights = None\<rparr>"

definition exampleTheta :: "string list theta" where
  "exampleTheta =
     \<lparr>seedFraction = 1 / 2, signalStrength = 1, spatialFocus = None,
      thetaBase.timeHorizon = 1, thetaBase.dt = 1, randomSeed = None\<rparr>"


text \<open>The same without a generator factory, so that the run falls back on \<open>Math.random\<close>.\<close>

definition exampleConfigNoFactory :: simConfig where
  "exampleConfigNoFactory = exampleConfig\<lparr>rngFactory := None\<rparr>"


text \<open>A grid of two seed fractions, one signal strength and the uniform focus; three runs per point.\<close>

definition exampleGrid :: paramGrid where
  "exampleGrid =
     \<lparr>seedFractions = [1 / 10, 2 / 10], signalStrengths = [1 / 2],
      spatialFocusOptions = [Some \<lparr>type = Some ''uniform'', centerIds = None, weights = None\<rparr>]\<rparr>"

definition exampleBaseSimConfig :: baseSimConfig where
  "exampleBaseSimConfig =
     \<lparr>fearParams = None, adoptionParams = None, popByRegion = [''a'' \<mapsto> 100],
      initialFearByRegion = None, rngFactory = Some (\<lambda>seed. constantStream (1 / 2)),
      harmWeights = None, baseSimConfig.timeHorizon = 1, baseSimConfig.dt = 1\<rparr>"

definition exampleSurfaceConfig :: surfaceConfig where
  "exampleSurfaceConfig =
     \<lparr>densityProvider = exampleProvider, mobilityGraph = [],
      baseSimConfig = exampleBaseSimConfig, runsPerPoint = 3\<rparr>"





text \<open>
  The thresholds \<open>materialAdoption = 0.3\<close>, \<open>criticalFear = 0.7\<close>, \<open>criticalPopShare = 0.1\<close>,
  and a history of one snapshot in which region \<open>a\<close> has adoption \<open>x\<close> and fear \<open>y\<close>.
\<close>

definition exampleFearParams :: fearParams where
  "exampleFearParams =
     \<lparr>kExposure = None, kGrowth = None, kHarm = None, decay = None, nonLinearSpike = None,
      spikeThreshold = None, spikeGain = None, criticalFear = Some (7 / 10),
      materialAdoption = Some (3 / 10), criticalPopShare = Some (1 / 10)\<rparr>"

definition exampleHistory :: "real \<Rightarrow> real \<Rightarrow> history" where
  "exampleHistory x y =
     \<lparr>A = [\<lparr>t = 0, values = [''a'' \<mapsto> Fin x]\<rparr>], F = [\<lparr>t = 0, values = [''a'' \<mapsto> Fin y]\<rparr>]\<rparr>"

section \<open>Properties\<close>

subsection \<open>Loops that assign one key per region\<close>

lemma fold_assign:
  "fold (\<lambda>r m. m(r \<mapsto> f r)) rs m0 = (\<lambda>x. if x \<in> set rs then Some (f x) else m0 x)"
  by (induction rs arbitrary: m0) (auto simp: fun_eq_iff)


subsection \<open>The history built by the simulation loop\<close>

lemma snapshotsFrom_Suc:
  "snapshotsFrom sel upd dtv step st (Suc n) =
     \<lparr>t = of_int step * dtv, values = sel st\<rparr> # snapshotsFrom sel upd dtv (step + 1) (upd st) n"
proof -
  have "[0..<Suc n] = 0 # map Suc [0..<n]"
    by (simp add: upt_conv_Cons map_Suc_upt del: upt_Suc)
  then show ?thesis
    by (simp add: snapshotsFrom_def comp_def funpow_swap1 add.assoc del: upt_Suc)
qed

lemma simLoop_history:
  "step \<le> T \<Longrightarrow>
   simLoop regions dp g signal cfg dtv T step st h =
     \<lparr>A = A h @ snapshotsFrom fst (updateState regions dp g signal cfg) dtv step st (Suc (nat (T - step))),
      F = F h @ snapshotsFrom snd (updateState regions dp g signal cfg) dtv step st (Suc (nat (T - step)))\<rparr>"
proof (induction regions dp g signal cfg dtv T step st h rule: simLoop.induct)
  case (1 regions dp g signal cfg dtv T step st h)
  show ?case
  proof (cases "step = T")
    case True
    then show ?thesis
      by (subst simLoop.simps) (simp add: pushSnapshot_def snapshotsFrom_def)
  next
    case False
    with "1.prems" have lt: "step + 1 \<le> T" by simp
    have n: "nat (T - step) = Suc (nat (T - (step + 1)))" using lt by simp
    have ih: "simLoop regions dp g signal cfg dtv T (step + 1) (updateState regions dp g signal cfg st)
                (pushSnapshot (of_int step * dtv) st h) = 
        \<lparr>A = A (pushSnapshot (of_int step * dtv) st h)
               @ snapshotsFrom fst (updateState regions dp g signal cfg) dtv (step + 1)
                   (updateState regions dp g signal cfg st) (Suc (nat (T - (step + 1)))),
          F = F (pushSnapshot (of_int step * dtv) st h)
               @ snapshotsFrom snd (updateState regions dp g signal cfg) dtv (step + 1)
                   (updateState regions dp g signal cfg st) (Suc (nat (T - (step + 1))))\<rparr>"
      using "1.IH"[OF "1.prems" refl False lt] .
    show ?thesis
      apply (subst simLoop.simps)
      apply (simp only: "1.prems" False if_True if_False Let_def ih n)
      apply (subst (3 4) snapshotsFrom_Suc)
      apply (simp add: pushSnapshot_def)
      done
  qed
qed

lemma simLoop_none: "\<not> step \<le> T \<Longrightarrow> simLoop regions dp g signal cfg dtv T step st h = h"
  by (subst simLoop.simps) simp

subsection \<open>The metrics scans never throw on the history of a run\<close>

lemma regionPeaksLoop_ok:
  "set rs \<subseteq> dom pr \<Longrightarrow>
   \<exists>ta tf pr'. regionPeaksLoop Av Fv pop time rs (a, b, pr) = Inr (ta, tf, pr') \<and> dom pr' = dom pr"
proof (induction rs arbitrary: a b pr)
  case Nil
  then show ?case by simp
next
  case (Cons r rs)
  then obtain rp where rp: "pr r = Some rp" by auto
  let ?pr2 = "pr(r \<mapsto> updateRegionPeaks rp (orElseU (Av r) (Fin 0)) (orElseU (Fv r) (Fin 0)) time)"
  have d: "dom ?pr2 = dom pr" using rp by auto
  have "set rs \<subseteq> dom ?pr2" using Cons.prems by auto
  from Cons.IH[OF this] obtain ta tf pr' where
    "regionPeaksLoop Av Fv pop time rs
       (a + orElseU (Av r) (Fin 0) * Fin (orRealU (pop r) 0),
        b + orElseU (Fv r) (Fin 0) * Fin (orRealU (pop r) 0), ?pr2) = Inr (ta, tf, pr')"
    and "dom pr' = dom ?pr2" by blast
  with d show ?case
    using rp by (simp add: Let_def)
qed

lemma perRegion_updateGlobalPeaks [simp]:
  "perRegion (updateGlobalPeaks m x y z) = perRegion m"
  by (simp add: updateGlobalPeaks_def Let_def)

lemma peaksLoop_ok:
  "length (A h) \<le> length (F h) \<Longrightarrow> set regions \<subseteq> dom (perRegion m) \<Longrightarrow>
   \<exists>m'. peaksLoop h regions pop popTotal i m = Inr m'"
proof (induction h regions pop popTotal i m rule: peaksLoop.induct)
  case (1 h regions pop popTotal i m)
  show ?case
  proof (cases "i < length (A h)")
    case False
    then show ?thesis by (subst peaksLoop.simps) simp
  next
    case True
    with "1.prems" have iF: "i < length (F h)" by simp
    obtain ta tf pr' where r: "regionPeaksLoop (values (A h ! i)) (values (F h ! i)) pop (t (A h ! i)) regions
        (Fin 0, Fin 0, perRegion m) = Inr (ta, tf, pr')" and d: "dom pr' = dom (perRegion m)"
      using regionPeaksLoop_ok[OF "1.prems"(2)] by blast
    have "\<exists>m'. peaksLoop h regions pop popTotal (Suc i)
        (updateGlobalPeaks (m\<lparr>perRegion := pr'\<rparr>) (ta / Fin popTotal) (tf / Fin popTotal) (t (A h ! i))) = Inr m'"
      apply (rule "1.IH"[OF True iF refl refl refl r refl refl refl refl])
      using "1.prems" d by auto
    then show ?thesis
      apply (subst peaksLoop.simps)
      apply (simp only: True iF if_True Let_def r sum.case prod.case)
      done
  qed
qed

lemma harmfulScan_ok:
  "length (A h) \<le> length (F h) \<Longrightarrow>
   \<exists>k b. harmfulScan h regions pop popTotal fp i = Inr (k, b)"
proof (induction h regions pop popTotal fp i rule: harmfulScan.induct)
  case (1 h regions pop popTotal fp i)
  show ?case
  proof (cases "i < length (A h)")
    case False
    then show ?thesis by (subst harmfulScan.simps) auto
  next
    case True
    with "1.prems" have iF: "i < length (F h)" by simp
    show ?thesis
      apply (subst harmfulScan.simps)
      using "1.IH"[OF True iF _ "1.prems"] True iF
      by auto
  qed
qed

lemma dom_initialPerRegion: "dom (initialPerRegion regions) = set regions"
  by (auto simp: initialPerRegion_def fold_assign split: if_splits)

lemma computeSimulationMetrics_ok:
  assumes "length (A h) \<le> length (F h)"
  shows "\<exists>m k b. computeSimulationMetrics h regions pop fp = Inr (m\<lparr>harmfulCascadeOccurred := b\<rparr>)
           \<and> harmfulScan h regions pop (orReal (sumPop regions pop) 1) fp 0 = Inr (k, b)"
proof -
  let ?m0 = "\<lparr>globalPeakAdoption = Fin 0, globalPeakFear = Fin 0,
               metrics.peakAdoptionTime = None, metrics.peakFearTime = None,
               perRegion = initialPerRegion regions, harmfulCascadeOccurred = False\<rparr>"
  have "set regions \<subseteq> dom (perRegion ?m0)" by (simp add: dom_initialPerRegion)
  from peaksLoop_ok[OF assms this]
  obtain m' where p: "peaksLoop h regions pop (orReal (sumPop regions pop) 1) 0 ?m0 = Inr m'" by blast
  from harmfulScan_ok[OF assms]
  obtain k b where s: "harmfulScan h regions pop (orReal (sumPop regions pop) 1) fp 0 = Inr (k, b)" by blast
  show ?thesis
    by (simp add: computeSimulationMetrics_def Let_def p s) blast
qed


lemma finishRun_ok:
  assumes "length (A h) \<le> length (F h)"
  shows "\<exists>m k b. finishRun h dp cfg = Returns \<lparr>history = h, metrics = m\<lparr>harmfulCascadeOccurred := b\<rparr>\<rparr>
           \<and> harmfulScan h (listRegions dp) (popByRegion cfg)
                (orReal (sumPop (listRegions dp) (popByRegion cfg)) 1) (fearParams cfg) 0 = Inr (k, b)"
proof -
  from computeSimulationMetrics_ok[OF assms]
  obtain m k b where
    "computeSimulationMetrics h (listRegions dp) (popByRegion cfg) (fearParams cfg)
       = Inr (m\<lparr>harmfulCascadeOccurred := b\<rparr>)"
    "harmfulScan h (listRegions dp) (popByRegion cfg)
       (orReal (sumPop (listRegions dp) (popByRegion cfg)) 1) (fearParams cfg) 0 = Inr (k, b)"
    by blast
  then show ?thesis
    by (auto simp: finishRun_def)
qed

lemma historyOfLength_snapshotsFrom:
  "historyOfLength mathRandom theta dp g cfg n =
     \<lparr>A = snapshotsFrom fst (updateState (listRegions dp) dp g (signalStrength theta) cfg)
            (thetaBase.dt theta) 0 (initialState mathRandom theta dp cfg) n,
      F = snapshotsFrom snd (updateState (listRegions dp) dp g (signalStrength theta) cfg)
            (thetaBase.dt theta) 0 (initialState mathRandom theta dp cfg) n\<rparr>"
  by (simp add: historyOfLength_def snapshotsFrom_def stateAfter_def)

lemma runCascadeSimulation_unfold:
  "runCascadeSimulation mathRandom theta dp g cfg =
     (if thetaBase.dt theta = 0 \<and> thetaBase.timeHorizon theta > 0 then Diverges
      else finishRun (historyOfLength mathRandom theta dp g cfg (snapshotCount theta)) dp cfg)"
proof (cases "thetaBase.dt theta = 0")
  case True
  then show ?thesis
    by (auto simp: runCascadeSimulation_def Let_def signed_inf_def snapshotCount_def
          historyOfLength_def)
next
  case False
  let ?T = "\<lfloor>thetaBase.timeHorizon theta / thetaBase.dt theta\<rfloor>"
  let ?h = "simLoop (listRegions dp) dp g (signalStrength theta) cfg (thetaBase.dt theta) ?T 0
              (initialState mathRandom theta dp cfg) \<lparr>A = [], F = []\<rparr>"
  have "?h = historyOfLength mathRandom theta dp g cfg (snapshotCount theta)"
  proof (cases "0 \<le> ?T")
    case True
    then have "\<not> thetaBase.timeHorizon theta / thetaBase.dt theta < 0" by linarith
    then show ?thesis
      using simLoop_history[OF True] False
      by (simp add: historyOfLength_snapshotsFrom snapshotCount_def)
  next
    case F2: False
    then have "thetaBase.timeHorizon theta / thetaBase.dt theta < 0" by linarith
    then show ?thesis
      using simLoop_none[OF F2]
      by (simp add: historyOfLength_def snapshotCount_def)
  qed
  then show ?thesis
    using False by (simp add: runCascadeSimulation_def Let_def)
qed

lemma runCascadeSimulation_returns:
  assumes "\<not> (thetaBase.dt theta = 0 \<and> thetaBase.timeHorizon theta > 0)"
  shows "\<exists>m k b. runCascadeSimulation mathRandom theta dp g cfg =
            Returns \<lparr>history = historyOfLength mathRandom theta dp g cfg (snapshotCount theta),
                     metrics = m\<lparr>harmfulCascadeOccurred := b\<rparr>\<rparr>
           \<and> harmfulScan (historyOfLength mathRandom theta dp g cfg (snapshotCount theta))
                (listRegions dp) (popByRegion cfg)
                (orReal (sumPop (listRegions dp) (popByRegion cfg)) 1) (fearParams cfg) 0 = Inr (k, b)"
proof -
  have "length (A (historyOfLength mathRandom theta dp g cfg (snapshotCount theta)))
        \<le> length (F (historyOfLength mathRandom theta dp g cfg (snapshotCount theta)))"
    by (simp add: historyOfLength_def)
  from finishRun_ok[OF this] show ?thesis
    using assms by (simp only: runCascadeSimulation_unfold if_False)
qed

text \<open>
  A run never throws, and it fails to return exactly when its loop bound is +Infinity.
\<close>

lemma runCascadeSimulation_outcome:
  "runCascadeSimulation mathRandom theta dp g cfg \<noteq> Throws e"
  "runCascadeSimulation mathRandom theta dp g cfg = Diverges
   \<longleftrightarrow> thetaBase.dt theta = 0 \<and> thetaBase.timeHorizon theta > 0"
proof -
  show "runCascadeSimulation mathRandom theta dp g cfg \<noteq> Throws e"
  proof (cases "thetaBase.dt theta = 0 \<and> thetaBase.timeHorizon theta > 0")
    case True
    then show ?thesis by (simp add: runCascadeSimulation_unfold)
  next
    case False
    from runCascadeSimulation_returns[OF this, of mathRandom dp g cfg]
    show ?thesis by auto
  qed
  show "runCascadeSimulation mathRandom theta dp g cfg = Diverges
   \<longleftrightarrow> thetaBase.dt theta = 0 \<and> thetaBase.timeHorizon theta > 0"
  proof (cases "thetaBase.dt theta = 0 \<and> thetaBase.timeHorizon theta > 0")
    case True
    then show ?thesis by (simp add: runCascadeSimulation_unfold)
  next
    case False
    from runCascadeSimulation_returns[OF this, of mathRandom dp g cfg] False
    show ?thesis by auto
  qed
qed



subsection \<open>Determinism\<close>

text \<open>
  C5 (amended). When the configuration supplies an \<open>rngFactory\<close>, two invocations with the
  same \<open>theta\<close>, configuration, mobility graph and density provider give the same outcome,
  whatever \<open>Math.random\<close> yields during each of them.
\<close>

theorem runCascadeSimulation_deterministic:
  assumes "rngFactory cfg \<noteq> None"
  shows "runCascadeSimulation mathRandom1 theta dp g cfg
         = runCascadeSimulation mathRandom2 theta dp g cfg"
proof -
  have "initialState mathRandom1 theta dp cfg = initialState mathRandom2 theta dp cfg"
    using assms by (auto simp: initialState_def)
  then show ?thesis
    by (simp add: runCascadeSimulation_def)
qed

theorem runCascadeSimulation_deterministic_witness:
  "rngFactory exampleConfig \<noteq> None
   \<and> runCascadeSimulation (constantStream 0) exampleTheta exampleProvider [] exampleConfig
     = runCascadeSimulation (constantStream (1 / 2)) exampleTheta exampleProvider [] exampleConfig"
  using runCascadeSimulation_deterministic[of exampleConfig "constantStream 0" exampleTheta
          exampleProvider "[]" "constantStream (1 / 2)"]
  by (simp add: exampleConfig_def)

lemma example_initial_adoption:
  "fst (initialState (constantStream u) exampleTheta exampleProvider exampleConfigNoFactory) ''a''
   = Some (clamp01 (Fin (1 / 200 + (u - 1 / 2) / 10)))"
  by (simp add: initialState_def exampleConfigNoFactory_def exampleConfig_def exampleTheta_def
        exampleProvider_def initializeAdoption_def computeSpatialFocusWeights_def
        uniformWeights_def sumPop_def seedAdoption_def Let_def orRealU_def orReal_def
        orElseU_def orElse_def constantStream_def)

lemma example_first_snapshot:
  "\<exists>res. runCascadeSimulation (constantStream u) exampleTheta exampleProvider [] exampleConfigNoFactory
           = Returns res
         \<and> values (A (history res) ! 0) ''a'' = Some (clamp01 (Fin (1 / 200 + (u - 1 / 2) / 10)))"
proof -
  have "\<not> (thetaBase.dt exampleTheta = 0 \<and> thetaBase.timeHorizon exampleTheta > 0)"
    and n: "snapshotCount exampleTheta = 2"
    by (simp_all add: exampleTheta_def snapshotCount_def)
  from runCascadeSimulation_returns[OF this(1),
         of "constantStream u" exampleProvider "[]" exampleConfigNoFactory]
  show ?thesis
    by (auto simp: n historyOfLength_def stateAfter_def example_initial_adoption
          simp del: upt_Suc)
qed

text \<open>
  Without an \<open>rngFactory\<close>, two invocations in which \<open>Math.random\<close> yields 0 and 1/2 differ
  already in their first snapshot.
\<close>

theorem runCascadeSimulation_math_random_counterexample:
  "runCascadeSimulation (constantStream 0) exampleTheta exampleProvider [] exampleConfigNoFactory
   \<noteq> runCascadeSimulation (constantStream (1 / 2)) exampleTheta exampleProvider [] exampleConfigNoFactory"
proof
  assume eq: "runCascadeSimulation (constantStream 0) exampleTheta exampleProvider [] exampleConfigNoFactory
   = runCascadeSimulation (constantStream (1 / 2)) exampleTheta exampleProvider [] exampleConfigNoFactory"
  from example_first_snapshot[of 0] example_first_snapshot[of "1 / 2"] eq
  have "clamp01 (Fin (1 / 200 + (0 - 1 / 2) / 10)) = clamp01 (Fin (1 / 200 + (1 / 2 - 1 / 2) / 10))"
    by auto
  then show False
    by (simp add: clamp01_def)
qed

subsection \<open>The harmful-cascade scan\<close>







text \<open>
  One region of population 100 with the thresholds above: adoption 0.5 with fear 0.8 sets
  the flag at snapshot 0; adoption 0.2 leaves it unset.
\<close>

lemma harmfulScan_example:
  "harmfulScan (exampleHistory (1 / 2) (8 / 10)) [''a''] [''a'' \<mapsto> 100] 100
     (Some exampleFearParams) 0 = Inr (0, True)"
  "harmfulScan (exampleHistory (2 / 10) (8 / 10)) [''a''] [''a'' \<mapsto> 100] 100
     (Some exampleFearParams) 0 = Inr (1, False)"
  by (simp_all add: harmfulScan.simps exampleHistory_def exampleFearParams_def shareAtRisk_def
        popAtRisk_def param_def withDefault_def orRealU_def orReal_def orElseU_def orElse_def)



subsection \<open>The result when no cell is safe\<close>



subsection \<open>The effect of the key computation on the store\<close>








subsection \<open>Grouping by canonical key\<close>
















subsection \<open>Explicit spatial-focus weights\<close>









subsection \<open>The response surface\<close>

lemma forEach_collect:
  assumes "\<And>x surf m. x \<in> set xs \<Longrightarrow>
             \<exists>cs m'. body x (surf, m) = Returns (surf @ cs, m') \<and> map proj cs = g x
                      \<and> (\<forall>c \<in> set cs. good c)"
  shows "\<exists>cs m'. forEach xs body (surf, m) = Returns (surf @ cs, m')
           \<and> map proj cs = concat (map g xs) \<and> (\<forall>c \<in> set cs. good c)"
  using assms
proof (induction xs arbitrary: surf m)
  case Nil
  then show ?case by simp
next
  case (Cons x xs)
  from Cons.prems[of x surf m] obtain cs m' where
    x: "body x (surf, m) = Returns (surf @ cs, m')" "map proj cs = g x" "\<forall>c \<in> set cs. good c"
    by auto
  have "\<exists>cs' m''. forEach xs body (surf @ cs, m') = Returns ((surf @ cs) @ cs', m'')
           \<and> map proj cs' = concat (map g xs) \<and> (\<forall>c \<in> set cs'. good c)"
    by (rule Cons.IH) (use Cons.prems in auto)
  then obtain cs' m'' where
    xs: "forEach xs body (surf @ cs, m') = Returns (surf @ cs @ cs', m'')"
      "map proj cs' = concat (map g xs)" "\<forall>c \<in> set cs'. good c"
    by auto
  show ?case
    apply (rule exI[of _ "cs @ cs'"], rule exI[of _ m''])
    using x xs by auto
qed

lemma thetaOfRun_bound:
  "thetaBase.dt (thetaOfRun sc point k) = baseSimConfig.dt (baseSimConfig sc)"
  "thetaBase.timeHorizon (thetaOfRun sc point k) = baseSimConfig.timeHorizon (baseSimConfig sc)"
  by (simp_all add: thetaOfRun_def)

lemma forEach_runOnce:
  assumes "\<not> (baseSimConfig.dt (baseSimConfig sc) = 0
              \<and> baseSimConfig.timeHorizon (baseSimConfig sc) > 0)"
  shows "\<exists>ms m'. forEach ks
             (runOnce sc \<lparr>seedFraction = a, signalStrength = b, spatialFocus = focus,
                          thetaBase.timeHorizon = baseSimConfig.timeHorizon (baseSimConfig sc),
                          thetaBase.dt = baseSimConfig.dt (baseSimConfig sc)\<rparr>)
             (results, m) = Returns (results @ ms, m')
           \<and> length ms = length ks
           \<and> (\<forall>i < length ks. \<exists>mathRandom res.
                 runCascadeSimulation mathRandom (thetaOfRun sc (a, b, focus) (ks ! i))
                   (densityProvider sc) (mobilityGraph sc) (simConfig.truncate (baseSimConfig sc))
                   = Returns res
                 \<and> ms ! i = metrics res)"
proof (induction ks arbitrary: results m)
  case Nil
  then show ?case by simp
next
  case (Cons k ks)
  let ?tb = "\<lparr>seedFraction = a, signalStrength = b, spatialFocus = focus,
                          thetaBase.timeHorizon = baseSimConfig.timeHorizon (baseSimConfig sc),
                          thetaBase.dt = baseSimConfig.dt (baseSimConfig sc)\<rparr>"
  have nd: "\<not> (thetaBase.dt (thetaOfRun sc (a, b, focus) k) = 0
              \<and> thetaBase.timeHorizon (thetaOfRun sc (a, b, focus) k) > 0)"
    using assms by (simp add: thetaOfRun_bound)
  from runCascadeSimulation_returns[OF nd, of m "densityProvider sc" "mobilityGraph sc"
         "simConfig.truncate (baseSimConfig sc)"]
  obtain res where
    run: "runCascadeSimulation m (thetaOfRun sc (a, b, focus) k) (densityProvider sc)
            (mobilityGraph sc) (simConfig.truncate (baseSimConfig sc)) = Returns res"
    by blast
  let ?m1 = "mathRandomAfterRun sc m"
  have once: "runOnce sc ?tb k (results, m) = Returns (results @ [metrics res], ?m1)"
    using run by (simp add: runOnce_def thetaOfRun_def Let_def)
  from Cons.IH[of "results @ [metrics res]" ?m1] obtain ms m' where
    rest: "forEach ks (runOnce sc ?tb) (results @ [metrics res], ?m1)
             = Returns ((results @ [metrics res]) @ ms, m')"
      "length ms = length ks"
      "\<forall>i < length ks. \<exists>mathRandom res.
                 runCascadeSimulation mathRandom (thetaOfRun sc (a, b, focus) (ks ! i))
                   (densityProvider sc) (mobilityGraph sc) (simConfig.truncate (baseSimConfig sc))
                   = Returns res
                 \<and> ms ! i = metrics res"
    by blast
  have all: "\<forall>i < length (k # ks). \<exists>mathRandom res'.
                 runCascadeSimulation mathRandom (thetaOfRun sc (a, b, focus) ((k # ks) ! i))
                   (densityProvider sc) (mobilityGraph sc) (simConfig.truncate (baseSimConfig sc))
                   = Returns res'
                 \<and> (metrics res # ms) ! i = metrics res'"
  proof (intro allI impI)
    fix i assume "i < length (k # ks)"
    then show "\<exists>mathRandom res'.
                 runCascadeSimulation mathRandom (thetaOfRun sc (a, b, focus) ((k # ks) ! i))
                   (densityProvider sc) (mobilityGraph sc) (simConfig.truncate (baseSimConfig sc))
                   = Returns res'
                 \<and> (metrics res # ms) ! i = metrics res'"
      using run rest(3) by (cases i) auto
  qed
  show ?case
    apply (rule exI[of _ "metrics res # ms"], rule exI[of _ m'])
    using once rest(1,2) all by simp
qed


lemma gridPointBody_cell:
  assumes "\<not> (baseSimConfig.dt (baseSimConfig sc) = 0
              \<and> baseSimConfig.timeHorizon (baseSimConfig sc) > 0)"
  shows "\<exists>cs m'. gridPointBody sc a b focus (surf, m) = Returns (surf @ cs, m')
           \<and> map gridPointOf cs = [(a, b, focus)] \<and> (\<forall>c \<in> set cs. cellAggregatesRuns sc c)"
proof -
  let ?n = "runsPerPoint sc"
  from forEach_runOnce[OF assms, of "[0..<?n]" a b focus "[]" m] obtain ms m' where
    runs: "forEach [0..<?n]
             (runOnce sc \<lparr>seedFraction = a, signalStrength = b, spatialFocus = focus,
                          thetaBase.timeHorizon = baseSimConfig.timeHorizon (baseSimConfig sc),
                          thetaBase.dt = baseSimConfig.dt (baseSimConfig sc)\<rparr>)
             ([], m) = Returns (ms, m')"
      and len: "length ms = ?n"
      and each: "\<forall>i < ?n. \<exists>mathRandom res.
                 runCascadeSimulation mathRandom (thetaOfRun sc (a, b, focus) i)
                   (densityProvider sc) (mobilityGraph sc) (simConfig.truncate (baseSimConfig sc))
                   = Returns res
                 \<and> ms ! i = metrics res"
    by auto
  let ?c = "\<lparr>seedFraction = a, signalStrength = b, spatialFocus = focus,
             stats = aggregateMetrics ms\<rparr>"
  have body: "gridPointBody sc a b focus (surf, m) = Returns (surf @ [?c], m')"
    by (simp add: gridPointBody_def Let_def runs)
  have point: "gridPointOf ?c = (a, b, focus)"
    by (simp add: gridPointOf_def)
  have raw: "raw (stats ?c) = ms"
    by (simp add: aggregateMetrics_def Let_def)
  have prob: "probabilityHarmful (stats ?c)
        = Fin (real (length (filter harmfulCascadeOccurred ms))) / Fin (orReal (real ?n) 1)"
    by (simp add: aggregateMetrics_def Let_def len)
  have p1: "0 < ?n \<Longrightarrow> probabilityHarmful (stats ?c)
        = Fin (real (length (filter harmfulCascadeOccurred ms)) / real ?n)"
    unfolding prob by (simp add: orReal_def)
  have p0: "?n = 0 \<Longrightarrow> probabilityHarmful (stats ?c) = Fin 0"
    unfolding prob using len by (simp add: orReal_def)
  have "cellAggregatesRuns sc ?c"
    unfolding cellAggregatesRuns_def raw point
    using len each p1 p0 by blast
  with body point show ?thesis
    by (intro exI[of _ "[?c]"] exI[of _ m']) simp
qed

lemma length_gridPoints:
  "length (gridPoints paramGrid)
   = length (seedFractions paramGrid) * length (signalStrengths paramGrid)
     * length (spatialFocusOptions paramGrid)"
proof -
  have inner: "\<And>bs fs (a::real). length (concat (map (\<lambda>b::real. map (\<lambda>f::string list spatialFocus option. (a, b, f)) fs) bs))
           = length bs * length fs"
    by (induct_tac bs) simp_all
  have "\<And>as bs fs. length (concat (map (\<lambda>a::real. concat (map (\<lambda>b::real. map (\<lambda>f::string list spatialFocus option. (a, b, f)) fs) bs)) as))
           = length as * length bs * length fs"
    by (induct_tac as) (simp_all add: inner algebra_simps)
  then show ?thesis
    by (simp add: gridPoints_def)
qed

text \<open>
  C3. \<open>buildResponseSurface\<close> returns exactly one cell per grid point, in nested iteration
  order with \<open>seedFraction\<close> outermost, then \<open>signalStrength\<close>, then \<open>spatialFocus\<close>. Each
  cell aggregates exactly \<open>runsPerPoint\<close> runs, run \<open>k\<close> with \<open>randomSeed = k\<close> for
  \<open>k = 0..runsPerPoint-1\<close>, and its \<open>probabilityHarmful\<close> is the number of runs with
  \<open>harmfulCascadeOccurred\<close> divided by \<open>runsPerPoint\<close> (0 when there are no runs). The
  surface is returned unless the runs have the loop bound +Infinity (\<open>dt = 0\<close> with
  \<open>timeHorizon > 0\<close>).
\<close>

theorem buildResponseSurface_cells:
  assumes "\<not> (baseSimConfig.dt (baseSimConfig sc) = 0
              \<and> baseSimConfig.timeHorizon (baseSimConfig sc) > 0)"
  shows "\<exists>surface. buildResponseSurface mathRandom paramGrid sc = Returns surface
           \<and> length surface
               = length (seedFractions paramGrid) * length (signalStrengths paramGrid)
                 * length (spatialFocusOptions paramGrid)
           \<and> map gridPointOf surface = gridPoints paramGrid
           \<and> (\<forall>c \<in> set surface. cellAggregatesRuns sc c)"
proof -
  have l3: "\<exists>cs m'. forEach (spatialFocusOptions paramGrid) (\<lambda>focus. gridPointBody sc a b focus) (surf, m)
              = Returns (surf @ cs, m')
            \<and> map gridPointOf cs
                = concat (map (\<lambda>focus. [(a, b, focus)]) (spatialFocusOptions paramGrid))
            \<and> (\<forall>c \<in> set cs. cellAggregatesRuns sc c)" for a b surf m
    by (rule forEach_collect) (rule gridPointBody_cell[OF assms])
  have l2: "\<exists>cs m'. forEach (signalStrengths paramGrid)
                (\<lambda>signal. forEach (spatialFocusOptions paramGrid)
                   (\<lambda>focus. gridPointBody sc a signal focus)) (surf, m)
              = Returns (surf @ cs, m')
            \<and> map gridPointOf cs
                = concat (map (\<lambda>signal. concat (map (\<lambda>focus. [(a, signal, focus)])
                     (spatialFocusOptions paramGrid))) (signalStrengths paramGrid))
            \<and> (\<forall>c \<in> set cs. cellAggregatesRuns sc c)" for a surf m
    by (rule forEach_collect) (rule l3)
  have l1: "\<exists>cs m'. forEach (seedFractions paramGrid)
                (\<lambda>seedFrac. forEach (signalStrengths paramGrid)
                   (\<lambda>signal. forEach (spatialFocusOptions paramGrid)
                      (\<lambda>focus. gridPointBody sc seedFrac signal focus))) ([], mathRandom)
              = Returns ([] @ cs, m')
            \<and> map gridPointOf cs
                = concat (map (\<lambda>seedFrac. concat (map (\<lambda>signal. concat (map (\<lambda>focus. [(seedFrac, signal, focus)])
                     (spatialFocusOptions paramGrid))) (signalStrengths paramGrid)))
                     (seedFractions paramGrid))
            \<and> (\<forall>c \<in> set cs. cellAggregatesRuns sc c)"
    by (rule forEach_collect) (rule l2)
  have single: "\<And>f xs. concat (map (\<lambda>x. [f x]) xs) = map f xs"
    by (induct_tac xs) simp_all
  from l1 obtain cs m' where
    run: "forEach (seedFractions paramGrid)
                (\<lambda>seedFrac. forEach (signalStrengths paramGrid)
                   (\<lambda>signal. forEach (spatialFocusOptions paramGrid)
                      (\<lambda>focus. gridPointBody sc seedFrac signal focus))) ([], mathRandom)
              = Returns (cs, m')"
    and pts: "map gridPointOf cs = gridPoints paramGrid"
    and good: "\<forall>c \<in> set cs. cellAggregatesRuns sc c"
    by (auto simp: gridPoints_def single)
  have "length cs = length (gridPoints paramGrid)"
    using pts by (metis length_map)
  then have len: "length cs = length (seedFractions paramGrid) * length (signalStrengths paramGrid)
                 * length (spatialFocusOptions paramGrid)"
    by (simp add: length_gridPoints)
  have "buildResponseSurface mathRandom paramGrid sc = Returns cs"
    by (simp add: buildResponseSurface_def run)
  with len pts good show ?thesis by blast
qed

theorem buildResponseSurface_cells_witness:
  "\<not> (baseSimConfig.dt (baseSimConfig exampleSurfaceConfig) = 0
       \<and> baseSimConfig.timeHorizon (baseSimConfig exampleSurfaceConfig) > 0)
   \<and> (\<exists>surface. buildResponseSurface (constantStream 0) exampleGrid exampleSurfaceConfig = Returns surface
         \<and> length surface = 2
         \<and> (\<forall>c \<in> set surface. length (raw (stats c)) = 3
               \<and> probabilityHarmful (stats c)
                   = Fin (real (length (filter harmfulCascadeOccurred (raw (stats c)))) / 3)))"
proof -
  have h: "\<not> (baseSimConfig.dt (baseSimConfig exampleSurfaceConfig) = 0
       \<and> baseSimConfig.timeHorizon (baseSimConfig exampleSurfaceConfig) > 0)"
    by (simp add: exampleSurfaceConfig_def exampleBaseSimConfig_def)
  have n: "runsPerPoint exampleSurfaceConfig = 3"
    by (simp add: exampleSurfaceConfig_def)
  have g: "length (seedFractions exampleGrid) * length (signalStrengths exampleGrid)
                 * length (spatialFocusOptions exampleGrid) = 2"
    by (simp add: exampleGrid_def)
  from buildResponseSurface_cells[OF h, of "constantStream 0" exampleGrid] h
  show ?thesis
    by (auto simp: g n cellAggregatesRuns_def)
qed

subsection \<open>Arithmetic on finite numbers\<close>

lemma Fin_minus [simp]: "Fin a - Fin b = Fin (a - b)"
  by (simp add: minus_num_def)

lemma mathMin_Fin [simp]: "mathMin (Fin a) (Fin b) = Fin (min a b)"
  by (simp add: min_def)

lemma mathMax_Fin [simp]: "mathMax (Fin a) (Fin b) = Fin (max a b)"
  by (simp add: max_def)

lemma clamp01_Fin [simp]: "clamp01 (Fin x) = Fin (max 0 (min 1 x))"
  by (simp add: clamp01_def)

lemma orElse_Fin_zero [simp]: "orElse (Fin a) (Fin 0) = Fin a"
  by (simp add: orElse_def)

lemma orElseU_Fin_zero [simp]: "orElseU (Some (Fin a)) (Fin 0) = Fin a"
  by (simp add: orElseU_def)

lemma orElseU_None [simp]: "orElseU None d = d"
  by (simp add: orElseU_def)

lemma orReal_nonzero [simp]: "orReal x 1 \<noteq> 0"
  by (simp add: orReal_def)

subsection \<open>The initial state is in range\<close>












subsection \<open>One update keeps the state in range\<close>

















subsection \<open>Reading a run's snapshots\<close>








subsection \<open>Ranges of adoption and fear\<close>




subsection \<open>Adoption does not decline\<close>




end
